theory Spec2Isabelle
  imports Complex_Main
begin

section \<open>Numbers\<close>

text \<open>
  The services compute on JavaScript numbers.  They are modelled as exact reals; rounding
  and overflow are outside the model.  The one value of a JavaScript number that a real
  cannot stand for and that the code can produce from finite inputs, the result of
  dividing zero by zero or of reading past the end of an array, is kept apart as
  \<open>NaN\<close> at the places where the source can produce it.
\<close>

datatype number = Fin real | NaN

datatype Label = YES | NO

text \<open>
  \<open>v || d\<close> for a number \<open>v\<close> that may be \<open>undefined\<close>: an absent value and
  zero are both falsy and give the default.
\<close>

definition orElse :: "real option \<Rightarrow> real \<Rightarrow> real" where
  "orElse v d = (case v of None \<Rightarrow> d | Some x \<Rightarrow> if x = 0 then d else x)"

text \<open>
  \<open>xs[i]\<close> for an integral index: \<open>undefined\<close> (here \<open>None\<close>) outside the array.
\<close>

definition elementAt :: "real list \<Rightarrow> int \<Rightarrow> real option" where
  "elementAt xs i = (if 0 \<le> i \<and> nat i < length xs then Some (xs ! nat i) else None)"

text \<open>\<open>xs.slice(start, end)\<close> for indices that are not negative.\<close>

definition slice :: "'a list \<Rightarrow> nat \<Rightarrow> nat \<Rightarrow> 'a list" where
  "slice xs start stop = take (stop - start) (drop start xs)"

section \<open>Types: types/index.ts\<close>

record EEGSignalResponse =
  timestamps :: "real list"
  rawSignal :: "real list"

record PreprocessedSignalResponse =
  rawSignal :: "real list"
  filteredSignal :: "real list"

record FeatureVector =
  mean :: real
  peak :: real
  latency :: real

record ClassificationResult =
  prediction :: Label
  confidence :: number

datatype SignalType = target | nontarget

record SignalSimulationParams =
  type :: SignalType
  samplingRate :: "real option"
  duration :: "real option"
  noiseLevel :: "real option"

section \<open>Signal simulation: eegSignalService.ts\<close>

text \<open>
  \<open>Math.random()\<close> is modelled by an explicit supply of its results, consumed from the
  front; every function that draws returns the rest of the supply.  The supply is finite:
  \<open>None\<close> means that it ran out.
\<close>

text \<open>\<open>while (u === 0) u = Math.random();\<close>\<close>

fun retryWhileZero :: "real \<Rightarrow> real list \<Rightarrow> (real \<times> real list) option" where
  "retryWhileZero u [] = (if u = 0 then None else Some (u, []))"
| "retryWhileZero u (r # rs) = (if u = 0 then retryWhileZero r rs else Some (u, r # rs))"

definition generateGaussianNoise :: "real \<Rightarrow> real \<Rightarrow> real list \<Rightarrow> (real \<times> real list) option" where
  "generateGaussianNoise mu stdDev rs =
     (case rs of
        u1 # u2 # rs0 \<Rightarrow>
          (case retryWhileZero u1 rs0 of
             None \<Rightarrow> None
           | Some (u1', rs1) \<Rightarrow>
               (case retryWhileZero u2 rs1 of
                  None \<Rightarrow> None
                | Some (u2', rs2) \<Rightarrow>
                    let z0 = sqrt (- 2.0 * ln u1') * cos (2.0 * pi * u2')
                    in Some (z0 * stdDev + mu, rs2)))
      | _ \<Rightarrow> None)"

text \<open>
  The second loop of \<open>generateEEGSignal\<close>, over the indices \<open>i < numSamples\<close>; the
  samples are returned in the order in which they are pushed.
\<close>

fun rawSignalLoop ::
  "SignalType \<Rightarrow> real \<Rightarrow> real list \<Rightarrow> nat list \<Rightarrow> real list
     \<Rightarrow> (real list \<times> real list) option" where
  "rawSignalLoop ty noise ts [] rs = Some ([], rs)"
| "rawSignalLoop ty noise ts (i # is) rs =
     (case generateGaussianNoise 0 noise rs of
        None \<Rightarrow> None
      | Some (baselineNoise, rs1) \<Rightarrow>
          let timeMs = ts ! i;
              amplitude =
                (if ty = target \<and> timeMs \<ge> 300 \<and> timeMs \<le> 600 then
                   baselineNoise + 5.0 * exp (- (((timeMs - 450) / 75) ^ 2) / 2)
                 else baselineNoise)
          in case rawSignalLoop ty noise ts is rs1 of
               None \<Rightarrow> None
             | Some (samples, rs2) \<Rightarrow> Some (amplitude # samples, rs2))"

definition generateEEGSignal ::
  "SignalSimulationParams \<Rightarrow> real list \<Rightarrow> (EEGSignalResponse \<times> real list) option" where
  "generateEEGSignal params rs =
     (let rate = orElse (samplingRate params) 250;
          dur = orElse (duration params) 1000;
          noise = orElse (noiseLevel params) 0.5;
          numSamples = \<lfloor>(rate * dur) / 1000\<rfloor>;
          ts = map (\<lambda>i. (real i * 1000) / rate) [0..<nat numSamples]
      in case rawSignalLoop (type params) noise ts [0..<nat numSamples] rs of
           None \<Rightarrow> None
         | Some (samples, rs') \<Rightarrow> Some (\<lparr>timestamps = ts, rawSignal = samples\<rparr>, rs'))"

section \<open>Preprocessing: preprocessingService.ts\<close>

text \<open>
  One pass of the moving average: for every index the inner loop runs \<open>j\<close> from
  \<open>max(0, i - floor(5 / 2))\<close> up to \<open>min(length, i + ceil(5 / 2))\<close> and counts what it
  adds.
\<close>

definition movingAveragePass :: "real list \<Rightarrow> real list" where
  "movingAveragePass filtered =
     map (\<lambda>i.
            let windowSize = 5 :: real;
                lo = max 0 (int i - \<lfloor>windowSize / 2\<rfloor>);
                hi = min (int (length filtered)) (int i + \<lceil>windowSize / 2\<rceil>);
                (total, count) =
                  foldl (\<lambda>(s, c) j. (s + filtered ! j, c + 1)) (0, 0 :: nat) [nat lo..<nat hi]
            in total / real count)
       [0..<length filtered]"

text \<open>
  The passes, then the loop \<open>filtered[i] = filtered[i] - filtered[i - 1] * 0.95\<close> for
  \<open>i\<close> from 1, on the array in place.
\<close>

definition applyBandpassFilter :: "real list \<Rightarrow> nat \<Rightarrow> real list" where
  "applyBandpassFilter signal order =
     (let filtered = (movingAveragePass ^^ order) signal
      in fold (\<lambda>i f. f[i := f ! i - f ! (i - 1) * 0.95]) [1..<length filtered] filtered)"

text \<open>
  The loop starts at \<open>floor(samplingRate / 50)\<close>.  With a negative sampling rate that
  index is negative and the loop reads past the end of a non-empty array, which leaves
  \<open>NaN\<close> samples: the model returns \<open>None\<close> there.
\<close>

definition applyNotchFilter :: "real list \<Rightarrow> real \<Rightarrow> real list option" where
  "applyNotchFilter signal samplingRateHz =
     (let notchFrequency = 50 :: real;
          periodSamples = samplingRateHz / notchFrequency;
          start = \<lfloor>periodSamples\<rfloor>
      in if start < 0 then (if signal = [] then Some [] else None)
         else Some (fold (\<lambda>i f. f[i := f ! i * 0.8 + f ! (i - nat start) * 0.2])
                      [nat start..<length signal] signal))"

text \<open>
  On an empty signal the mean is zero divided by zero, and it is not used: the result is
  the empty signal.
\<close>

definition preprocessSignal :: "real list \<Rightarrow> real \<Rightarrow> PreprocessedSignalResponse option" where
  "preprocessSignal raw samplingRateHz =
     (case applyNotchFilter (applyBandpassFilter raw 2) samplingRateHz of
        None \<Rightarrow> None
      | Some filtered \<Rightarrow>
          let m = foldl (+) 0 filtered / real (length filtered)
          in Some \<lparr>rawSignal = raw, filteredSignal = map (\<lambda>sample. sample - m) filtered\<rparr>)"

section \<open>Feature extraction: featureExtractionService.ts\<close>

definition P300_START_MS :: real where
  "P300_START_MS = 300"

definition P300_END_MS :: real where
  "P300_END_MS = 600"

text \<open>
  The loop of \<open>findClosestIndex\<close>, from index \<open>i\<close> on.  On the empty array the source
  reads \<open>array[0]\<close>, the loop does not run, and the index is 0.
\<close>

fun findClosestFrom :: "real list \<Rightarrow> real \<Rightarrow> nat \<Rightarrow> real \<Rightarrow> nat \<Rightarrow> nat" where
  "findClosestFrom [] goal i minDiff closestIdx = closestIdx"
| "findClosestFrom (x # rest) goal i minDiff closestIdx =
     (let diff = \<bar>x - goal\<bar>
      in if diff < minDiff then findClosestFrom rest goal (i + 1) diff i
         else findClosestFrom rest goal (i + 1) minDiff closestIdx)"

definition findClosestIndex :: "real list \<Rightarrow> real \<Rightarrow> nat" where
  "findClosestIndex array goal =
     (case array of [] \<Rightarrow> 0 | a0 # rest \<Rightarrow> findClosestFrom rest goal 1 \<bar>a0 - goal\<bar> 0)"

text \<open>
  What the index search is to deliver: an index of the array whose element is nearest to
  the goal, the first such index in a left-to-right scan.
\<close>

definition closest :: "real list \<Rightarrow> real \<Rightarrow> nat \<Rightarrow> bool" where
  "closest xs goal r \<longleftrightarrow>
     r < length xs \<and>
     (\<forall>j<length xs. \<bar>xs ! r - goal\<bar> \<le> \<bar>xs ! j - goal\<bar>) \<and>
     (\<forall>j<r. \<bar>xs ! r - goal\<bar> < \<bar>xs ! j - goal\<bar>)"

text \<open>\<open>xs.findIndex(P)\<close>: the first index whose element satisfies \<open>P\<close>, or \<open>-1\<close>.\<close>

fun findIndexFrom :: "('a \<Rightarrow> bool) \<Rightarrow> 'a list \<Rightarrow> nat \<Rightarrow> int" where
  "findIndexFrom P [] i = - 1"
| "findIndexFrom P (x # xs) i = (if P x then int i else findIndexFrom P xs (i + 1))"

definition findIndex :: "('a \<Rightarrow> bool) \<Rightarrow> 'a list \<Rightarrow> int" where
  "findIndex P xs = findIndexFrom P xs 0"

definition extractFeatures :: "real list \<Rightarrow> real list \<Rightarrow> FeatureVector" where
  "extractFeatures signal ts =
     (let startIdx = findClosestIndex ts P300_START_MS;
          endIdx = findClosestIndex ts P300_END_MS;
          windowSignal = slice signal startIdx (endIdx + 1);
          windowTimestamps = slice ts startIdx (endIdx + 1)
      in if length windowSignal = 0 then \<lparr>mean = 0, peak = 0, latency = 0\<rparr>
         else
           let m = foldl (+) 0 windowSignal / real (length windowSignal);
               p = Max (set (map abs windowSignal));
               peakIdx = findIndex (\<lambda>s. \<bar>s\<bar> = p) windowSignal;
               l = orElse (elementAt windowTimestamps peakIdx) 0
           in \<lparr>mean = m, peak = p, latency = l\<rparr>)"

section \<open>Classifier: ldaClassifier.ts\<close>

record TrainingData =
  features :: "FeatureVector list"
  labels :: "string list"

text \<open>The private fields of the class \<open>LDAClassifier\<close>, with their initial values.\<close>

record LDAClassifier =
  weights :: "real list"
  bias :: real
  isTrained :: bool
  threshold :: real

definition newLDAClassifier :: LDAClassifier where
  "newLDAClassifier = \<lparr>weights = [0, 0, 0], bias = 0, isTrained = False, threshold = 0.5\<rparr>"

text \<open>What \<open>train\<close> writes to the console: \<open>console.warn\<close> and \<open>console.log\<close>.\<close>

datatype LogEntry =
  Warn string
| Log string
| LogWeights string "real list"
| LogBias string real

subsection \<open>Private helpers\<close>

text \<open>
  \<open>a.reduce((sum, val, i) => sum + val * b[i], 0)\<close>.  Reading \<open>b[i]\<close> past the end
  of \<open>b\<close> gives \<open>undefined\<close>, and the sum is \<open>NaN\<close> from there on.
\<close>

fun dotProductFrom :: "nat \<Rightarrow> real list \<Rightarrow> real list \<Rightarrow> real \<Rightarrow> number" where
  "dotProductFrom i [] b acc = Fin acc"
| "dotProductFrom i (val # a) b acc =
     (if i < length b then dotProductFrom (Suc i) a b (acc + val * (b ! i)) else NaN)"

definition dotProduct :: "real list \<Rightarrow> real list \<Rightarrow> number" where
  "dotProduct a b = dotProductFrom 0 a b 0"

definition sigmoid :: "real \<Rightarrow> real" where
  "sigmoid x = 1 / (1 + exp (- x))"

text \<open>\<open>calculateMean\<close> is called on non-empty lists only.\<close>

definition calculateMean :: "FeatureVector list \<Rightarrow> FeatureVector" where
  "calculateMean fs =
     (let n = real (length fs);
          s = foldl (\<lambda>acc f. \<lparr>mean = mean acc + mean f,
                                 peak = peak acc + peak f,
                                 latency = latency acc + latency f\<rparr>)
                  \<lparr>mean = 0, peak = 0, latency = 0\<rparr> fs
      in \<lparr>mean = mean s / n, peak = peak s / n, latency = latency s / n\<rparr>)"

text \<open>
  One iteration of \<open>for (const f of class)\<close>: the nested loops add
  \<open>diff[i] * diff[j]\<close> to \<open>cov[i][j]\<close> for \<open>i, j < 3\<close>.
\<close>

definition addOuterProduct :: "FeatureVector \<Rightarrow> FeatureVector \<Rightarrow> real list list \<Rightarrow> real list list" where
  "addOuterProduct classMean f cov =
     (let diff = [mean f - mean classMean, peak f - peak classMean,
                  latency f - latency classMean]
      in map (\<lambda>i. map (\<lambda>j. cov ! i ! j + diff ! i * diff ! j) [0..<3]) [0..<3])"

text \<open>
  The division by \<open>n - 2\<close>: with one sample in each class every accumulated entry is
  zero and \<open>n - 2\<close> is zero, so every entry of the matrix is \<open>NaN\<close> in the source;
  the model returns \<open>None\<close> there.
\<close>

definition calculatePooledCovariance ::
  "FeatureVector list \<Rightarrow> FeatureVector list \<Rightarrow> FeatureVector \<Rightarrow> FeatureVector
     \<Rightarrow> real list list option" where
  "calculatePooledCovariance class1 class2 mean1 mean2 =
     (let n1 = int (length class1);
          n2 = int (length class2);
          n = n1 + n2;
          cov0 = [[0, 0, 0], [0, 0, 0], [0, 0, 0]];
          cov1 = foldl (\<lambda>cov f. addOuterProduct mean1 f cov) cov0 class1;
          cov2 = foldl (\<lambda>cov f. addOuterProduct mean2 f cov) cov1 class2
      in if n - 2 = 0 then None
         else
           let cov3 = map (map (\<lambda>x. x / real_of_int (n - 2))) cov2
           in Some (map (\<lambda>i. map (\<lambda>j. if i = j then cov3 ! i ! j + 0.000001 else cov3 ! i ! j)
                                 [0..<3]) [0..<3]))"

definition invert3x3 :: "real list list \<Rightarrow> real list list \<times> LogEntry list" where
  "invert3x3 m =
     (let det =
            m ! 0 ! 0 * (m ! 1 ! 1 * m ! 2 ! 2 - m ! 1 ! 2 * m ! 2 ! 1) -
            m ! 0 ! 1 * (m ! 1 ! 0 * m ! 2 ! 2 - m ! 1 ! 2 * m ! 2 ! 0) +
            m ! 0 ! 2 * (m ! 1 ! 0 * m ! 2 ! 1 - m ! 1 ! 1 * m ! 2 ! 0)
      in if \<bar>det\<bar> < 0.0000000001 then
           ([[1, 0, 0], [0, 1, 0], [0, 0, 1]],
            [Warn ''Matrix is nearly singular, using identity''])
         else
           ([[(m ! 1 ! 1 * m ! 2 ! 2 - m ! 1 ! 2 * m ! 2 ! 1) / det,
              (m ! 0 ! 2 * m ! 2 ! 1 - m ! 0 ! 1 * m ! 2 ! 2) / det,
              (m ! 0 ! 1 * m ! 1 ! 2 - m ! 0 ! 2 * m ! 1 ! 1) / det],
             [(m ! 1 ! 2 * m ! 2 ! 0 - m ! 1 ! 0 * m ! 2 ! 2) / det,
              (m ! 0 ! 0 * m ! 2 ! 2 - m ! 0 ! 2 * m ! 2 ! 0) / det,
              (m ! 0 ! 2 * m ! 1 ! 0 - m ! 0 ! 0 * m ! 1 ! 2) / det],
             [(m ! 1 ! 0 * m ! 2 ! 1 - m ! 1 ! 1 * m ! 2 ! 0) / det,
              (m ! 0 ! 1 * m ! 2 ! 0 - m ! 0 ! 0 * m ! 2 ! 1) / det,
              (m ! 0 ! 0 * m ! 1 ! 1 - m ! 0 ! 1 * m ! 1 ! 0) / det]],
            []))"

definition matrixVectorMultiply :: "real list list \<Rightarrow> real list \<Rightarrow> real list" where
  "matrixVectorMultiply matrix vector =
     map (\<lambda>i. matrix ! i ! 0 * vector ! 0 + matrix ! i ! 1 * vector ! 1
               + matrix ! i ! 2 * vector ! 2) [0..<3]"

subsection \<open>train\<close>

text \<open>
  The loop over \<open>labels\<close> runs after the length check, so \<open>features[i]\<close> exists for
  every label: a feature vector goes to \<open>yesFeatures\<close> when its label is the string
  \<open>YES\<close> and to \<open>noFeatures\<close> otherwise.
\<close>

definition yesFeatures :: "TrainingData \<Rightarrow> FeatureVector list" where
  "yesFeatures data = map snd (filter (\<lambda>(l, f). l = ''YES'') (zip (labels data) (features data)))"

definition noFeatures :: "TrainingData \<Rightarrow> FeatureVector list" where
  "noFeatures data = map snd (filter (\<lambda>(l, f). l \<noteq> ''YES'') (zip (labels data) (features data)))"

text \<open>
  \<open>train\<close> returns the classifier after the call and the console output.  The result
  is \<open>None\<close> where the source stores \<open>NaN\<close> parameters (and sets \<open>isTrained\<close>):
  with exactly one sample in each class.
\<close>

definition train :: "LDAClassifier \<Rightarrow> TrainingData \<Rightarrow> (LDAClassifier \<times> LogEntry list) option" where
  "train this data =
     (if length (features data) = 0 \<or> length (labels data) \<noteq> length (features data) then
        Some (this, [Warn ''Invalid training data''])
      else if length (yesFeatures data) = 0 \<or> length (noFeatures data) = 0 then
        Some (this, [Warn ''Need both YES and NO samples for training''])
      else
        let meanYes = calculateMean (yesFeatures data);
            meanNo = calculateMean (noFeatures data)
        in case calculatePooledCovariance (yesFeatures data) (noFeatures data) meanYes meanNo of
             None \<Rightarrow> None
           | Some covMatrix \<Rightarrow>
               let (covInv, warnings) = invert3x3 covMatrix;
                   meanDiff = [mean meanYes - mean meanNo, peak meanYes - peak meanNo,
                               latency meanYes - latency meanNo];
                   w = matrixVectorMultiply covInv meanDiff;
                   meanSum = [mean meanYes + mean meanNo, peak meanYes + peak meanNo,
                              latency meanYes + latency meanNo]
               in case dotProduct w meanSum of
                    NaN \<Rightarrow> None
                  | Fin d \<Rightarrow>
                      let b = - 0.5 * d
                      in Some (this\<lparr>weights := w, bias := b, isTrained := True\<rparr>,
                               warnings @ [Log ''LDA trained successfully'',
                                           LogWeights ''Weights:'' w, LogBias ''Bias:'' b]))"

subsection \<open>predict and setThreshold\<close>

text \<open>
  A \<open>NaN\<close> score gives a \<open>NaN\<close> confidence, and \<open>NaN > threshold\<close> is false.
\<close>

definition predict :: "LDAClassifier \<Rightarrow> FeatureVector \<Rightarrow> ClassificationResult" where
  "predict this fv =
     (if \<not> isTrained this then \<lparr>prediction = NO, confidence = Fin 0.5\<rparr>
      else
        let featureArray = [mean fv, peak fv, latency fv]
        in case dotProduct (weights this) featureArray of
             NaN \<Rightarrow> \<lparr>prediction = NO, confidence = NaN\<rparr>
           | Fin d \<Rightarrow>
               let score = d + bias this;
                   c = sigmoid score
               in \<lparr>prediction = (if c > threshold this then YES else NO),
                   confidence = Fin c\<rparr>)"

definition setThreshold :: "LDAClassifier \<Rightarrow> real \<Rightarrow> LDAClassifier" where
  "setThreshold this t = this\<lparr>threshold := max 0 (min 1 t)\<rparr>"

text \<open>
  The constructor of \<open>DefaultLDAClassifier\<close>: \<open>setWeights([2.5, 3.0, 0.5])\<close>, which
  also sets \<open>isTrained\<close>, then \<open>setBias(-1.2)\<close>.
\<close>

definition DefaultLDAClassifier :: LDAClassifier where
  "DefaultLDAClassifier =
     newLDAClassifier\<lparr>weights := [2.5, 3.0, 0.5], isTrained := True, bias := - 1.2\<rparr>"

section \<open>Decision logic: decisionLogicService.ts\<close>

subsection \<open>smoothPredictions\<close>

record Prediction =
  prediction :: string
  confidence :: real

record SmoothedDecision =
  decision :: Label
  confidence :: number

text \<open>
  The loop \<open>for (let i = 0; i < window.length; i++)\<close>: the remaining entries of the
  window, the index \<open>i\<close> and the two accumulators \<open>weightedConfidence\<close> and
  \<open>weightSum\<close>.
\<close>

fun weightLoop :: "Prediction list \<Rightarrow> nat \<Rightarrow> real \<Rightarrow> real \<Rightarrow> real \<times> real" where
  "weightLoop [] i weightedConfidence weightSum = (weightedConfidence, weightSum)"
| "weightLoop (p # ps) i weightedConfidence weightSum =
     (let weight = real (i + 1)
      in weightLoop ps (i + 1)
           (weightedConfidence + Prediction.confidence p * weight) (weightSum + weight))"

text \<open>
  \<open>predictions.slice(Math.max(0, predictions.length - windowSize))\<close>, for an integral
  \<open>windowSize\<close>.
\<close>

definition lastWindow :: "Prediction list \<Rightarrow> int \<Rightarrow> Prediction list" where
  "lastWindow predictions windowSize =
     drop (nat (max 0 (int (length predictions) - windowSize))) predictions"

text \<open>
  With a window size below one the window is empty, \<open>weightSum\<close> is zero and the
  source divides zero by zero: the confidence is \<open>NaN\<close>.
\<close>

definition smoothPredictions :: "Prediction list \<Rightarrow> int \<Rightarrow> SmoothedDecision" where
  "smoothPredictions predictions windowSize =
     (if length predictions = 0 then \<lparr>decision = NO, confidence = Fin 0.5\<rparr>
      else
        let window = lastWindow predictions windowSize;
            (weightedConfidence, weightSum) = weightLoop window 0 0 0;
            avgConfidence = (if weightSum = 0 then NaN else Fin (weightedConfidence / weightSum));
            yesCount = length (filter (\<lambda>p. prediction p = ''YES'') window);
            threshold = \<lceil>real (length window) / 2\<rceil>
        in \<lparr>decision = (if int yesCount \<ge> threshold then YES else NO),
            confidence = avgConfidence\<rparr>)"

subsection \<open>adaptDifficulty\<close>

record DifficultyUpdate =
  newFlashSpeed :: real
  newObjectCount :: int
  notification :: string

definition adaptDifficulty :: "real \<Rightarrow> real \<Rightarrow> int \<Rightarrow> DifficultyUpdate" where
  "adaptDifficulty recentAccuracy currentFlashSpeed currentObjectCount =
     (if recentAccuracy > 0.7 then
        (let newFlashSpeed = min 1.5 (currentFlashSpeed * 1.1)
         in if currentObjectCount < 4 then
              \<lparr>newFlashSpeed = newFlashSpeed,
               newObjectCount = currentObjectCount + 1,
               notification = ''Great job! Adding more objects.''\<rparr>
            else
              \<lparr>newFlashSpeed = min 1.5 (newFlashSpeed * 1.15),
               newObjectCount = currentObjectCount,
               notification = ''Excellent! Speeding up the game.''\<rparr>)
      else if recentAccuracy < 0.4 then
        (let newFlashSpeed = max 0.6 (currentFlashSpeed * 0.9)
         in if currentObjectCount > 3 then
              \<lparr>newFlashSpeed = newFlashSpeed,
               newObjectCount = currentObjectCount - 1,
               notification = ''Let's slow down a bit. Removing an object.''\<rparr>
            else
              \<lparr>newFlashSpeed = max 0.6 (newFlashSpeed * 0.85),
               newObjectCount = currentObjectCount,
               notification = ''No worries! We'll take it slower.''\<rparr>)
      else
        \<lparr>newFlashSpeed = currentFlashSpeed,
         newObjectCount = currentObjectCount,
         notification = ''You're doing great! Keep going!''\<rparr>)"

text \<open>
  Repeated application: the caller stores \<open>newFlashSpeed\<close> and \<open>newObjectCount\<close> as
  the calibration state and passes them to the next call, one call per accuracy reading.
\<close>

fun adaptRepeatedly :: "real list \<Rightarrow> real \<times> int \<Rightarrow> real \<times> int" where
  "adaptRepeatedly [] state = state"
| "adaptRepeatedly (recentAccuracy # rest) (flashSpeed, objectCount) =
     (let r = adaptDifficulty recentAccuracy flashSpeed objectCount
      in adaptRepeatedly rest (newFlashSpeed r, newObjectCount r))"

definition inBounds :: "real \<times> int \<Rightarrow> bool" where
  "inBounds state = (0.6 \<le> fst state \<and> fst state \<le> 1.5 \<and> 3 \<le> snd state \<and> snd state \<le> 4)"


section \<open>Properties of the decision logic\<close>

subsection \<open>The weighted average\<close>

lemma weightLoop_sums:
  "weightLoop ps i wc ws =
     (wc + (\<Sum>k<length ps. Prediction.confidence (ps ! k) * real (i + k + 1)),
      ws + (\<Sum>k<length ps. real (i + k + 1)))"
proof (induction ps arbitrary: i wc ws)
  case Nil
  then show ?case by simp
next
  case (Cons p ps)
  show ?case
    by (simp add: Cons.IH Let_def sum.lessThan_Suc_shift add.assoc del: sum.lessThan_Suc)
qed

lemma weightSum_pos: "ps \<noteq> [] \<Longrightarrow> 0 < (\<Sum>k<length ps. real (k + 1))"
  by (cases ps)
    (simp_all add: sum.lessThan_Suc_shift add_pos_nonneg sum_nonneg del: sum.lessThan_Suc)

lemma lastWindow_drop:
  "lastWindow predictions windowSize =
     drop (length predictions - min (nat windowSize) (length predictions)) predictions"
proof (cases "windowSize \<le> 0")
  case True
  then show ?thesis by (simp add: lastWindow_def max_def)
next
  case False
  then show ?thesis
    unfolding lastWindow_def
    by (intro arg_cong [where f = "\<lambda>k. drop k predictions"]) (simp add: min_def max_def, linarith)
qed

lemma lastWindow_empty_iff:
  "predictions \<noteq> [] \<Longrightarrow> lastWindow predictions windowSize = [] \<longleftrightarrow> windowSize < 1"
  by (auto simp: lastWindow_drop min_def split: if_splits)

lemma smoothPredictions_nonempty:
  fixes predictions :: "Prediction list" and windowSize :: int
  assumes "predictions \<noteq> []"
  defines "window \<equiv> lastWindow predictions windowSize"
  shows "smoothPredictions predictions windowSize =
     \<lparr>decision =
        (if \<lceil>real (length window) / 2\<rceil>
              \<le> int (length (filter (\<lambda>p. prediction p = ''YES'') window))
         then YES else NO),
      confidence =
        (if windowSize < 1 then NaN
         else Fin ((\<Sum>k<length window. Prediction.confidence (window ! k) * real (k + 1))
             / (\<Sum>k<length window. real (k + 1))))\<rparr>"
proof (cases "windowSize < 1")
  case True
  with assms have "window = []" by (simp add: lastWindow_empty_iff)
  then show ?thesis
    using assms(1) True unfolding smoothPredictions_def window_def [symmetric]
    by simp
next
  case False
  with assms have ne: "window \<noteq> []" by (simp add: lastWindow_empty_iff)
  from weightSum_pos [OF ne] have "(\<Sum>k<length window. real (k + 1)) \<noteq> 0"
    by simp
  then show ?thesis
    using assms(1) False unfolding smoothPredictions_def window_def [symmetric]
    by (simp add: weightLoop_sums Let_def del: sum.lessThan_Suc)
qed

subsection \<open>Bounds of the difficulty controller\<close>

lemma adaptDifficulty_step_inBounds:
  "inBounds (f, n) \<Longrightarrow>
   inBounds (newFlashSpeed (adaptDifficulty a f n), newObjectCount (adaptDifficulty a f n))"
  by (auto simp: inBounds_def adaptDifficulty_def Let_def min_def max_def)

lemma adaptRepeatedly_inBounds: "inBounds s \<Longrightarrow> inBounds (adaptRepeatedly accs s)"
proof (induction accs arbitrary: s)
  case Nil
  then show ?case by simp
next
  case (Cons a accs)
  obtain f n where s: "s = (f, n)" by (cases s)
  show ?case
    using Cons.prems unfolding s
    by (simp add: Let_def Cons.IH adaptDifficulty_step_inBounds)
qed


section \<open>Claims about the decision logic\<close>

text \<open>
  C1, as stated: \<open>adaptDifficulty(0.3, 1.0, 3)\<close> returns \<open>newFlashSpeed = 0.85\<close>.
  The low-performance branch first sets the speed to \<open>max(0.6, 1.0 * 0.9) = 0.9\<close> and,
  the object count being at its floor, multiplies that reduced speed by \<open>0.85\<close>: the
  result is \<open>0.765\<close>, not \<open>0.85\<close>.
\<close>

theorem adaptDifficulty_low_floor_counterexample:
  "newFlashSpeed (adaptDifficulty 0.3 1.0 3) \<noteq> 0.85"
  by (simp add: adaptDifficulty_def Let_def)

text \<open>
  C1, amended: for \<open>recentAccuracy = 0.3\<close>, \<open>currentFlashSpeed = 1.0\<close> and
  \<open>currentObjectCount = 3\<close>, \<open>adaptDifficulty\<close> returns
  \<open>newFlashSpeed = max(0.6, max(0.6, 1.0 * 0.9) * 0.85) = 0.765\<close>, \<open>newObjectCount = 3\<close>
  and the take-it-slower notification of the flash-speed-only low-performance branch.
\<close>

theorem adaptDifficulty_low_floor:
  "adaptDifficulty 0.3 1.0 3 =
     \<lparr>newFlashSpeed = max 0.6 (max 0.6 (1.0 * 0.9) * 0.85),
      newObjectCount = 3,
      notification = ''No worries! We'll take it slower.''\<rparr>
   \<and> newFlashSpeed (adaptDifficulty 0.3 1.0 3) = 0.765"
  by (simp add: adaptDifficulty_def Let_def)

text \<open>
  C2: for every accuracy and every state with flash speed in \<open>[0.6, 1.5]\<close> and object
  count in \<open>[3, 4]\<close>, one call of \<open>adaptDifficulty\<close> returns a flash speed in
  \<open>[0.6, 1.5]\<close> and an object count in \<open>[3, 4]\<close>, and so does every sequence of calls
  that feeds each result to the next call.
\<close>

theorem adaptDifficulty_bounds:
  "inBounds (flashSpeed, objectCount) \<Longrightarrow>
   inBounds (newFlashSpeed (adaptDifficulty recentAccuracy flashSpeed objectCount),
             newObjectCount (adaptDifficulty recentAccuracy flashSpeed objectCount))
   \<and> inBounds (adaptRepeatedly accuracies (flashSpeed, objectCount))"
  by (simp add: adaptDifficulty_step_inBounds adaptRepeatedly_inBounds)

theorem adaptDifficulty_bounds_witness:
  "inBounds (1.4, 3)
   \<and> adaptDifficulty 0.8 1.4 3 =
       \<lparr>newFlashSpeed = 1.5, newObjectCount = 4,
        notification = ''Great job! Adding more objects.''\<rparr>
   \<and> inBounds (newFlashSpeed (adaptDifficulty 0.8 1.4 3),
               newObjectCount (adaptDifficulty 0.8 1.4 3))
   \<and> inBounds (adaptRepeatedly [0.8, 0.9, 0.1, 0.5] (1.4, 3))"
  using adaptDifficulty_bounds
    [where flashSpeed = "1.4" and objectCount = 3 and recentAccuracy = "0.8"
       and accuracies = "[0.8, 0.9, 0.1, 0.5]"]
  by (simp add: inBounds_def adaptDifficulty_def Let_def)

text \<open>
  C3, as stated: on the three predictions (YES, 0.85), (YES, 0.72), (NO, 0.55) with window
  size 5 the confidence is approximately \<open>0.700\<close>.  The weighted average
  \<open>(1 * 0.85 + 2 * 0.72 + 3 * 0.55) / 6\<close> is \<open>3.94 / 6 = 197 / 300\<close>, about
  \<open>0.657\<close>; it is more than \<open>0.04\<close> away from \<open>0.700\<close>.
\<close>

theorem smoothPredictions_example_counterexample:
  "SmoothedDecision.confidence (smoothPredictions
      [\<lparr>prediction = ''YES'', confidence = 0.85\<rparr>,
       \<lparr>prediction = ''YES'', confidence = 0.72\<rparr>,
       \<lparr>prediction = ''NO'', confidence = 0.55\<rparr>] 5) = Fin (197 / 300)
   \<and> \<not> \<bar>197 / 300 - 0.700\<bar> < (0.04 :: real)"
  by (simp add: smoothPredictions_def lastWindow_def Let_def)

text \<open>
  C3, amended: on the three predictions (YES, 0.85), (YES, 0.72), (NO, 0.55) with window
  size 5, \<open>smoothPredictions\<close> returns decision YES with confidence
  \<open>(1 * 0.85 + 2 * 0.72 + 3 * 0.55) / (1 + 2 + 3)\<close>, which is approximately \<open>0.657\<close>.
\<close>

theorem smoothPredictions_example:
  "smoothPredictions
      [\<lparr>prediction = ''YES'', confidence = 0.85\<rparr>,
       \<lparr>prediction = ''YES'', confidence = 0.72\<rparr>,
       \<lparr>prediction = ''NO'', confidence = 0.55\<rparr>] 5
    = \<lparr>decision = YES, confidence = Fin ((1 * 0.85 + 2 * 0.72 + 3 * 0.55) / (1 + 2 + 3))\<rparr>
   \<and> \<bar>(1 * 0.85 + 2 * 0.72 + 3 * 0.55) / (1 + 2 + 3) - 0.657\<bar> < (0.0005 :: real)"
  by (simp add: smoothPredictions_def lastWindow_def Let_def)

text \<open>
  C7: on the empty list \<open>smoothPredictions\<close> returns decision NO with confidence 0.5.
  On a non-empty list the window is the last \<open>windowSize\<close> entries (all of them if
  there are fewer); for a window size of at least one the confidence is the average of the
  window's confidences weighted by position index plus one (below one the window is empty
  and the confidence is \<open>NaN\<close>); the confidence is the same for any other list with the
  same confidences, whatever its labels; and the decision is YES if and only if the number
  of YES labels in the window is at least the ceiling of half the window length, NO
  otherwise.
\<close>

theorem smoothPredictions_spec:
  "smoothPredictions [] windowSize = \<lparr>decision = NO, confidence = Fin 0.5\<rparr> \<and>
   (predictions \<noteq> [] \<longrightarrow>
      (let window =
             drop (length predictions - min (nat windowSize) (length predictions)) predictions;
           r = smoothPredictions predictions windowSize
       in length window = min (nat windowSize) (length predictions) \<and>
          (1 \<le> windowSize \<longrightarrow>
             SmoothedDecision.confidence r =
               Fin ((\<Sum>i<length window. real (i + 1) * (map Prediction.confidence window ! i))
                    / (\<Sum>i<length window. real (i + 1)))) \<and>
          (windowSize < 1 \<longrightarrow> SmoothedDecision.confidence r = NaN) \<and>
          (decision r = YES \<longleftrightarrow>
             \<lceil>real (length window) / 2\<rceil>
               \<le> int (length (filter (\<lambda>p. prediction p = ''YES'') window))) \<and>
          (decision r = NO \<longleftrightarrow>
             \<not> \<lceil>real (length window) / 2\<rceil>
                 \<le> int (length (filter (\<lambda>p. prediction p = ''YES'') window))) \<and>
          (\<forall>others. map Prediction.confidence others = map Prediction.confidence predictions \<longrightarrow>
             SmoothedDecision.confidence (smoothPredictions others windowSize)
               = SmoothedDecision.confidence r)))"
proof (intro conjI impI)
  show "smoothPredictions [] windowSize = \<lparr>decision = NO, confidence = Fin 0.5\<rparr>"
    by (simp add: smoothPredictions_def)
next
  assume a: "predictions \<noteq> []"
  define k where "k = length predictions - min (nat windowSize) (length predictions)"
  define window where "window = drop k predictions"
  define r where "r = smoothPredictions predictions windowSize"
  define yesCount where "yesCount = length (filter (\<lambda>p. prediction p = ''YES'') window)"
  have lw: "lastWindow predictions windowSize = window"
    by (simp add: lastWindow_drop window_def k_def)
  have len: "length window = min (nat windowSize) (length predictions)"
    unfolding window_def k_def by (simp add: min_def)
  have sums: "(\<Sum>i<length window. real (i + 1) * (map Prediction.confidence window ! i))
      = (\<Sum>i<length window. Prediction.confidence (window ! i) * real (i + 1))"
    by (intro sum.cong refl) (simp add: mult.commute)
  have r_eq: "r = \<lparr>decision = (if \<lceil>real (length window) / 2\<rceil> \<le> int yesCount then YES else NO),
      confidence =
        (if windowSize < 1 then NaN
         else Fin ((\<Sum>i<length window. real (i + 1) * (map Prediction.confidence window ! i))
             / (\<Sum>i<length window. real (i + 1))))\<rparr>"
    unfolding r_def yesCount_def sums
    using smoothPredictions_nonempty [OF a, of windowSize] unfolding lw .
  have indep: "SmoothedDecision.confidence (smoothPredictions others windowSize)
        = SmoothedDecision.confidence r"
    if eq: "map Prediction.confidence others = map Prediction.confidence predictions"
    for others
  proof -
    define w' where "w' = lastWindow others windowSize"
    from eq have l: "length others = length predictions"
      by (metis length_map)
    with a have ne: "others \<noteq> []"
      by auto
    have m: "map Prediction.confidence w' = map Prediction.confidence window"
      unfolding w'_def lw [symmetric] lastWindow_def l by (simp add: drop_map [symmetric] eq)
    then have lw': "length w' = length window"
      by (metis length_map)
    have "Prediction.confidence (w' ! i) = map Prediction.confidence window ! i"
      if "i < length window" for i
      using that lw' nth_map [of i w' Prediction.confidence] by (simp add: m)
    then have "(\<Sum>i<length w'. Prediction.confidence (w' ! i) * real (i + 1))
      = (\<Sum>i<length window. real (i + 1) * (map Prediction.confidence window ! i))"
      unfolding lw' by (intro sum.cong refl) (simp add: mult.commute)
    then show ?thesis
      using smoothPredictions_nonempty [OF ne, of windowSize]
      unfolding w'_def [symmetric] lw' r_eq by simp
  qed
  show "(let window =
             drop (length predictions - min (nat windowSize) (length predictions)) predictions;
           r = smoothPredictions predictions windowSize
       in length window = min (nat windowSize) (length predictions) \<and>
          (1 \<le> windowSize \<longrightarrow>
             SmoothedDecision.confidence r =
               Fin ((\<Sum>i<length window. real (i + 1) * (map Prediction.confidence window ! i))
                    / (\<Sum>i<length window. real (i + 1)))) \<and>
          (windowSize < 1 \<longrightarrow> SmoothedDecision.confidence r = NaN) \<and>
          (decision r = YES \<longleftrightarrow>
             \<lceil>real (length window) / 2\<rceil>
               \<le> int (length (filter (\<lambda>p. prediction p = ''YES'') window))) \<and>
          (decision r = NO \<longleftrightarrow>
             \<not> \<lceil>real (length window) / 2\<rceil>
                 \<le> int (length (filter (\<lambda>p. prediction p = ''YES'') window))) \<and>
          (\<forall>others. map Prediction.confidence others = map Prediction.confidence predictions \<longrightarrow>
             SmoothedDecision.confidence (smoothPredictions others windowSize)
               = SmoothedDecision.confidence r))"
    unfolding Let_def k_def [symmetric] window_def [symmetric] r_def [symmetric]
      yesCount_def [symmetric]
  proof (intro conjI impI allI)
    show "length window = min (nat windowSize) (length predictions)"
      by (rule len)
    show "SmoothedDecision.confidence r =
        Fin ((\<Sum>i<length window. real (i + 1) * (map Prediction.confidence window ! i))
             / (\<Sum>i<length window. real (i + 1)))"
      if "1 \<le> windowSize"
      using that unfolding r_eq by simp
    show "SmoothedDecision.confidence r = NaN" if "windowSize < 1"
      using that unfolding r_eq by simp
    show "(decision r = YES) = (\<lceil>real (length window) / 2\<rceil> \<le> int yesCount)"
      unfolding r_eq by simp
    show "(decision r = NO) = (\<not> \<lceil>real (length window) / 2\<rceil> \<le> int yesCount)"
      unfolding r_eq by simp
    show "SmoothedDecision.confidence (smoothPredictions others windowSize)
        = SmoothedDecision.confidence r"
      if "map Prediction.confidence others = map Prediction.confidence predictions" for others
      using that by (rule indep)
  qed
qed

theorem smoothPredictions_spec_witness:
  "[\<lparr>prediction = ''NO'', confidence = 0.2\<rparr>,
      \<lparr>prediction = ''YES'', confidence = 0.9\<rparr>,
      \<lparr>prediction = ''YES'', confidence = 0.6\<rparr>] \<noteq> [] \<and> (1::int) \<le> 2 \<and>
   SmoothedDecision.confidence (smoothPredictions
     [\<lparr>prediction = ''NO'', confidence = 0.2\<rparr>,
      \<lparr>prediction = ''YES'', confidence = 0.9\<rparr>,
      \<lparr>prediction = ''YES'', confidence = 0.6\<rparr>] 2) = Fin 0.7 \<and>
   decision (smoothPredictions
     [\<lparr>prediction = ''NO'', confidence = 0.2\<rparr>,
      \<lparr>prediction = ''YES'', confidence = 0.9\<rparr>,
      \<lparr>prediction = ''YES'', confidence = 0.6\<rparr>] 2) = YES \<and>
   (0::int) < 1 \<and>
   SmoothedDecision.confidence (smoothPredictions
     [\<lparr>prediction = ''NO'', confidence = 0.2\<rparr>,
      \<lparr>prediction = ''YES'', confidence = 0.9\<rparr>,
      \<lparr>prediction = ''YES'', confidence = 0.6\<rparr>] 0) = NaN \<and>
   decision (smoothPredictions
     [\<lparr>prediction = ''NO'', confidence = 0.2\<rparr>,
      \<lparr>prediction = ''YES'', confidence = 0.9\<rparr>,
      \<lparr>prediction = ''YES'', confidence = 0.6\<rparr>] 0) = YES"
  using smoothPredictions_spec [where windowSize = 2 and predictions = "[\<lparr>prediction = ''NO'', confidence = 0.2\<rparr>,
      \<lparr>prediction = ''YES'', confidence = 0.9\<rparr>,
      \<lparr>prediction = ''YES'', confidence = 0.6\<rparr>]"]
    smoothPredictions_spec [where windowSize = 0 and predictions = "[\<lparr>prediction = ''NO'', confidence = 0.2\<rparr>,
      \<lparr>prediction = ''YES'', confidence = 0.9\<rparr>,
      \<lparr>prediction = ''YES'', confidence = 0.6\<rparr>]"]
  by (simp add: Let_def)

section \<open>Properties of the classifier\<close>

lemma dotProduct3:
  "dotProduct [w0, w1, w2] [x0, x1, x2] = Fin (w0 * x0 + w1 * x1 + w2 * x2)"
  by (simp add: dotProduct_def)

lemma length_matrixVectorMultiply: "length (matrixVectorMultiply m v) = 3"
  by (simp add: matrixVectorMultiply_def)

text \<open>
  Every classifier the code can build has three weights: the initial one, the default
  one, and each one \<open>train\<close> returns.
\<close>

lemma train_weights_length:
  assumes "train this d = Some (that, out)" and "length (weights this) = 3"
  shows "length (weights that) = 3"
  using assms
  by (auto simp: train_def Let_def length_matrixVectorMultiply
      split: if_splits option.splits prod.splits number.splits)

lemma yesFeatures_empty_iff:
  assumes "length (labels d) = length (features d)"
  shows "yesFeatures d = [] \<longleftrightarrow> ''YES'' \<notin> set (labels d)"
proof -
  have "yesFeatures d = [] \<longleftrightarrow> (\<forall>p \<in> set (zip (labels d) (features d)). fst p \<noteq> ''YES'')"
    unfolding yesFeatures_def by (auto simp: filter_empty_conv)
  also have "\<dots> \<longleftrightarrow> (\<forall>l \<in> fst ` set (zip (labels d) (features d)). l \<noteq> ''YES'')"
    by auto
  also have "fst ` set (zip (labels d) (features d)) = set (labels d)"
    using assms by (metis map_fst_zip set_map)
  finally show ?thesis by auto
qed

lemma noFeatures_empty_iff:
  assumes "length (labels d) = length (features d)"
  shows "noFeatures d = [] \<longleftrightarrow> (\<forall>l \<in> set (labels d). l = ''YES'')"
proof -
  have "noFeatures d = [] \<longleftrightarrow> (\<forall>p \<in> set (zip (labels d) (features d)). fst p = ''YES'')"
    unfolding noFeatures_def by (auto simp: filter_empty_conv)
  also have "\<dots> \<longleftrightarrow> (\<forall>l \<in> fst ` set (zip (labels d) (features d)). l = ''YES'')"
    by auto
  also have "fst ` set (zip (labels d) (features d)) = set (labels d)"
    using assms by (metis map_fst_zip set_map)
  finally show ?thesis by auto
qed

lemma train_invalid:
  "features d = [] \<or> length (labels d) \<noteq> length (features d) \<Longrightarrow>
   train this d = Some (this, [Warn ''Invalid training data''])"
  by (auto simp: train_def)

lemma train_one_class:
  assumes "features d \<noteq> []" and "length (labels d) = length (features d)"
    and "''YES'' \<notin> set (labels d) \<or> (\<forall>l \<in> set (labels d). l = ''YES'')"
  shows "train this d = Some (this, [Warn ''Need both YES and NO samples for training''])"
  using assms yesFeatures_empty_iff [of d] noFeatures_empty_iff [of d]
  by (auto simp: train_def)

text \<open>
  A training run that does update the classifier: two coinciding YES examples and one NO
  example.  The regularised covariance is nearly singular, so the identity replaces its
  inverse, and the weights are the difference of the class means.
\<close>

lemma train_example:
  "train newLDAClassifier
     \<lparr>features = [\<lparr>mean = 1, peak = 1, latency = 1\<rparr>, \<lparr>mean = 1, peak = 1, latency = 1\<rparr>,
                  \<lparr>mean = 0, peak = 0, latency = 0\<rparr>],
      labels = [''YES'', ''YES'', ''NO'']\<rparr>
     = Some (\<lparr>weights = [1, 1, 1], bias = - 1.5, isTrained = True, threshold = 0.5\<rparr>,
             [Warn ''Matrix is nearly singular, using identity'',
              Log ''LDA trained successfully'', LogWeights ''Weights:'' [1, 1, 1],
              LogBias ''Bias:'' (- 1.5)])"
  by (simp add: train_def yesFeatures_def noFeatures_def calculateMean_def
      calculatePooledCovariance_def addOuterProduct_def invert3x3_def matrixVectorMultiply_def
      dotProduct_def Let_def newLDAClassifier_def upt_rec)

section \<open>Claims about the classifier\<close>

text \<open>
  C5: an untrained classifier predicts NO with confidence 0.5.  A trained classifier with
  weights \<open>(w0, w1, w2)\<close> returns the confidence
  \<open>sigmoid (w0 * mean + w1 * peak + w2 * latency + bias)\<close>, where
  \<open>sigmoid s = 1 / (1 + exp (- s))\<close>, and the label YES if and only if that confidence
  is greater than the threshold, NO otherwise.  The threshold is 0.5 initially, and
  \<open>setThreshold\<close> stores its argument clamped to \<open>[0, 1]\<close> and changes nothing else.
\<close>

theorem predict_spec:
  "(\<not> isTrained this \<longrightarrow>
      predict this fv = \<lparr>ClassificationResult.prediction = NO, confidence = Fin 0.5\<rparr>) \<and>
   (isTrained this \<and> weights this = [w0, w1, w2] \<longrightarrow>
      (let c = sigmoid (w0 * mean fv + w1 * peak fv + w2 * latency fv + bias this)
       in c = 1 / (1 + exp (- (w0 * mean fv + w1 * peak fv + w2 * latency fv + bias this))) \<and>
          ClassificationResult.confidence (predict this fv) = Fin c \<and>
          (ClassificationResult.prediction (predict this fv) = YES \<longleftrightarrow> c > threshold this) \<and>
          (ClassificationResult.prediction (predict this fv) = NO
             \<longleftrightarrow> \<not> c > threshold this))) \<and>
   threshold newLDAClassifier = 0.5 \<and>
   threshold DefaultLDAClassifier = 0.5 \<and>
   threshold (setThreshold this t) = max 0 (min 1 t) \<and>
   0 \<le> threshold (setThreshold this t) \<and> threshold (setThreshold this t) \<le> 1 \<and>
   (0 \<le> t \<and> t \<le> 1 \<longrightarrow> threshold (setThreshold this t) = t) \<and>
   weights (setThreshold this t) = weights this \<and> bias (setThreshold this t) = bias this \<and>
   isTrained (setThreshold this t) = isTrained this"
  by (simp add: predict_def dotProduct3 Let_def sigmoid_def newLDAClassifier_def
      DefaultLDAClassifier_def setThreshold_def)

theorem predict_spec_witness:
  "\<not> isTrained newLDAClassifier \<and>
   predict newLDAClassifier \<lparr>mean = 1, peak = 5, latency = 450\<rparr>
     = \<lparr>ClassificationResult.prediction = NO, confidence = Fin 0.5\<rparr> \<and>
   isTrained DefaultLDAClassifier \<and> weights DefaultLDAClassifier = [2.5, 3.0, 0.5] \<and>
   ClassificationResult.confidence
     (predict DefaultLDAClassifier \<lparr>mean = 0, peak = 0.4, latency = 0\<rparr>) = Fin 0.5 \<and>
   ClassificationResult.prediction
     (predict DefaultLDAClassifier \<lparr>mean = 0, peak = 0.4, latency = 0\<rparr>) = NO \<and>
   ClassificationResult.prediction
     (predict (setThreshold DefaultLDAClassifier 0.4) \<lparr>mean = 0, peak = 0.4, latency = 0\<rparr>)
     = YES \<and>
   (0::real) \<le> 0.4 \<and> (0.4::real) \<le> 1 \<and>
   threshold (setThreshold DefaultLDAClassifier 0.4) = 0.4 \<and>
   threshold (setThreshold DefaultLDAClassifier 7) = 1"
  using
    predict_spec [of newLDAClassifier "\<lparr>mean = 1, peak = 5, latency = 450\<rparr>" "2.5" "3.0" "0.5" 0]
    predict_spec [of DefaultLDAClassifier "\<lparr>mean = 0, peak = 0.4, latency = 0\<rparr>"
      "2.5" "3.0" "0.5" 7]
    predict_spec [of "setThreshold DefaultLDAClassifier 0.4"
      "\<lparr>mean = 0, peak = 0.4, latency = 0\<rparr>" "2.5" "3.0" "0.5" "0.4"]
  by (simp add: newLDAClassifier_def DefaultLDAClassifier_def sigmoid_def Let_def
      setThreshold_def)

text \<open>
  C6: if \<open>train\<close> is called with an empty feature list, or with a label list whose
  length differs from that of the feature list, it returns the classifier unchanged and
  logs the warning \<open>Invalid training data\<close>.  If it is called with non-empty, aligned
  data labelled \<open>YES\<close> or \<open>NO\<close> in which one of the two classes has no example, it
  returns the classifier unchanged and logs the warning
  \<open>Need both YES and NO samples for training\<close>.  In each case weights, bias, threshold
  and trained flag are all as before, and no error is raised.
\<close>

theorem train_noop:
  "(features d = [] \<or> length (labels d) \<noteq> length (features d) \<longrightarrow>
      train this d = Some (this, [Warn ''Invalid training data''])) \<and>
   (features d \<noteq> [] \<and> length (labels d) = length (features d) \<and>
    set (labels d) \<subseteq> {''YES'', ''NO''} \<and>
    (''YES'' \<notin> set (labels d) \<or> ''NO'' \<notin> set (labels d)) \<longrightarrow>
      train this d = Some (this, [Warn ''Need both YES and NO samples for training'']) \<and>
      weights (fst (the (train this d))) = weights this \<and>
      bias (fst (the (train this d))) = bias this \<and>
      threshold (fst (the (train this d))) = threshold this \<and>
      isTrained (fst (the (train this d))) = isTrained this)"
proof (intro conjI impI)
  assume "features d = [] \<or> length (labels d) \<noteq> length (features d)"
  then show "train this d = Some (this, [Warn ''Invalid training data''])"
    by (rule train_invalid)
next
  assume a: "features d \<noteq> [] \<and> length (labels d) = length (features d) \<and>
    set (labels d) \<subseteq> {''YES'', ''NO''} \<and>
    (''YES'' \<notin> set (labels d) \<or> ''NO'' \<notin> set (labels d))"
  then have "''YES'' \<notin> set (labels d) \<or> (\<forall>l \<in> set (labels d). l = ''YES'')"
    by blast
  with a have t: "train this d = Some (this, [Warn ''Need both YES and NO samples for training''])"
    by (intro train_one_class) simp_all
  then show "train this d = Some (this, [Warn ''Need both YES and NO samples for training''])"
    "weights (fst (the (train this d))) = weights this"
    "bias (fst (the (train this d))) = bias this"
    "threshold (fst (the (train this d))) = threshold this"
    "isTrained (fst (the (train this d))) = isTrained this"
    by simp_all
qed

theorem train_noop_witness:
  "train DefaultLDAClassifier \<lparr>features = [], labels = []\<rparr>
     = Some (DefaultLDAClassifier, [Warn ''Invalid training data'']) \<and>
   train DefaultLDAClassifier
     \<lparr>features = [\<lparr>mean = 1, peak = 5, latency = 450\<rparr>], labels = [''YES'', ''NO'']\<rparr>
     = Some (DefaultLDAClassifier, [Warn ''Invalid training data'']) \<and>
   set [''NO'', ''NO''] \<subseteq> {''YES'', ''NO''} \<and> ''YES'' \<notin> set [''NO'', ''NO''] \<and>
   train DefaultLDAClassifier
     \<lparr>features = [\<lparr>mean = 1, peak = 5, latency = 450\<rparr>, \<lparr>mean = 0, peak = 1, latency = 320\<rparr>],
      labels = [''NO'', ''NO'']\<rparr>
     = Some (DefaultLDAClassifier, [Warn ''Need both YES and NO samples for training'']) \<and>
   set [''YES'', ''YES''] \<subseteq> {''YES'', ''NO''} \<and> ''NO'' \<notin> set [''YES'', ''YES''] \<and>
   train DefaultLDAClassifier
     \<lparr>features = [\<lparr>mean = 1, peak = 5, latency = 450\<rparr>, \<lparr>mean = 0, peak = 1, latency = 320\<rparr>],
      labels = [''YES'', ''YES'']\<rparr>
     = Some (DefaultLDAClassifier, [Warn ''Need both YES and NO samples for training''])"
  using
    train_noop [where d = "\<lparr>features = [], labels = []\<rparr>" and this = DefaultLDAClassifier]
    train_noop [where d = "\<lparr>features = [\<lparr>mean = 1, peak = 5, latency = 450\<rparr>],
                            labels = [''YES'', ''NO'']\<rparr>" and this = DefaultLDAClassifier]
    train_noop [where d = "\<lparr>features = [\<lparr>mean = 1, peak = 5, latency = 450\<rparr>,
                                        \<lparr>mean = 0, peak = 1, latency = 320\<rparr>],
                            labels = [''NO'', ''NO'']\<rparr>" and this = DefaultLDAClassifier]
    train_noop [where d = "\<lparr>features = [\<lparr>mean = 1, peak = 5, latency = 450\<rparr>,
                                        \<lparr>mean = 0, peak = 1, latency = 320\<rparr>],
                            labels = [''YES'', ''YES'']\<rparr>" and this = DefaultLDAClassifier]
  by simp

section \<open>Properties of the simulator\<close>

lemma retryWhileZero_nonzero: "u \<noteq> 0 \<Longrightarrow> retryWhileZero u rs = Some (u, rs)"
  by (cases rs) simp_all

text \<open>The Box-Muller value computed from two draws that are not zero.\<close>

lemma generateGaussianNoise_formula:
  assumes "u1 \<noteq> 0" and "u2 \<noteq> 0"
  shows "generateGaussianNoise mu sd (u1 # u2 # rs0)
           = Some (sqrt (- 2 * ln u1) * cos (2 * pi * u2) * sd + mu, rs0)"
  using assms by (simp add: generateGaussianNoise_def retryWhileZero_nonzero Let_def)

lemma generateGaussianNoise_nonzero:
  assumes "0 \<notin> set rs" and "2 \<le> length rs"
  shows "\<exists>x. generateGaussianNoise mu sd rs = Some (x, drop 2 rs)"
proof -
  from assms(2) obtain u1 u2 rs0 where rs: "rs = u1 # u2 # rs0"
    by (cases rs; cases "tl rs") auto
  with assms(1) have "u1 \<noteq> 0" "u2 \<noteq> 0" by auto
  then show ?thesis
    by (simp add: generateGaussianNoise_formula rs)
qed

lemma rawSignalLoop_length:
  "rawSignalLoop ty noise ts is rs = Some (samples, rs') \<Longrightarrow> length samples = length is"
  by (induction "is" arbitrary: rs samples rs')
     (auto simp: Let_def split: option.splits prod.splits)

lemma rawSignalLoop_returns:
  assumes "0 \<notin> set rs" and "2 * length is \<le> length rs"
  shows "rawSignalLoop ty noise ts is rs \<noteq> None"
  using assms
proof (induction "is" arbitrary: rs)
  case Nil
  then show ?case by simp
next
  case (Cons i "is")
  from Cons.prems have "2 \<le> length rs" by simp
  from generateGaussianNoise_nonzero [OF Cons.prems(1) this, of 0 noise]
  obtain x where x: "generateGaussianNoise 0 noise rs = Some (x, drop 2 rs)" by blast
  have "0 \<notin> set (drop 2 rs)"
    using Cons.prems(1) by (meson in_set_dropD)
  moreover have "2 * length is \<le> length (drop 2 rs)"
    using Cons.prems(2) by simp
  ultimately have "rawSignalLoop ty noise ts is (drop 2 rs) \<noteq> None"
    by (rule Cons.IH)
  then show ?case
    by (auto simp: x Let_def split: option.splits)
qed

section \<open>Properties of the preprocessing\<close>

lemma foldl_plus_sum_list: "foldl (+) a xs = a + sum_list xs" for a :: real
  by (induction xs arbitrary: a) (simp_all add: add.assoc)

lemma length_fold_update:
  "length (fold (\<lambda>i f. f[i := g i f]) is xs) = length xs"
  by (induction "is" arbitrary: xs) simp_all

lemma length_movingAveragePass: "length (movingAveragePass xs) = length xs"
  by (simp add: movingAveragePass_def)

lemma length_funpow_movingAveragePass: "length ((movingAveragePass ^^ n) xs) = length xs"
  by (induction n) (simp_all add: length_movingAveragePass)

lemma length_applyBandpassFilter: "length (applyBandpassFilter xs n) = length xs"
  by (simp add: applyBandpassFilter_def Let_def length_fold_update length_funpow_movingAveragePass)

lemma applyNotchFilter_Some:
  "0 \<le> sr \<Longrightarrow> \<exists>ys. applyNotchFilter xs sr = Some ys \<and> length ys = length xs"
  by (simp add: applyNotchFilter_def Let_def length_fold_update)

lemma sum_list_centered:
  fixes xs :: "real list"
  assumes "xs \<noteq> []"
  shows "sum_list (map (\<lambda>x. x - sum_list xs / real (length xs)) xs) = 0"
proof -
  have "sum_list (map (\<lambda>x. x - c) xs) = sum_list xs - real (length xs) * c" for c
    by (induction xs) (simp_all add: algebra_simps)
  then show ?thesis using assms by simp
qed

section \<open>Properties of the feature extraction\<close>

lemma closest_snoc_new:
  assumes "closest pre goal c" and "\<bar>x - goal\<bar> < \<bar>pre ! c - goal\<bar>"
  shows "closest (pre @ [x]) goal (length pre)"
  unfolding closest_def
proof (intro conjI allI impI)
  show "length pre < length (pre @ [x])" by simp
next
  fix j assume "j < length (pre @ [x])"
  then consider "j < length pre" | "j = length pre" by fastforce
  then show "\<bar>(pre @ [x]) ! length pre - goal\<bar> \<le> \<bar>(pre @ [x]) ! j - goal\<bar>"
  proof cases
    case 1
    with assms(1) have "\<bar>pre ! c - goal\<bar> \<le> \<bar>pre ! j - goal\<bar>"
      by (simp add: closest_def)
    with assms(2) 1 show ?thesis by (simp add: nth_append)
  next
    case 2
    then show ?thesis by simp
  qed
next
  fix j assume j: "j < length pre"
  with assms(1) have "\<bar>pre ! c - goal\<bar> \<le> \<bar>pre ! j - goal\<bar>"
    by (simp add: closest_def)
  with assms(2) j show "\<bar>(pre @ [x]) ! length pre - goal\<bar> < \<bar>(pre @ [x]) ! j - goal\<bar>"
    by (simp add: nth_append)
qed

lemma closest_snoc_old:
  assumes "closest pre goal c" and "\<not> \<bar>x - goal\<bar> < \<bar>pre ! c - goal\<bar>"
  shows "closest (pre @ [x]) goal c"
  unfolding closest_def
proof (intro conjI allI impI)
  from assms(1) have c: "c < length pre" by (simp add: closest_def)
  then show "c < length (pre @ [x])" by simp
  fix j
  {
    assume "j < length (pre @ [x])"
    then consider "j < length pre" | "j = length pre" by fastforce
    then show "\<bar>(pre @ [x]) ! c - goal\<bar> \<le> \<bar>(pre @ [x]) ! j - goal\<bar>"
    proof cases
      case 1
      with assms(1) c show ?thesis by (simp add: closest_def nth_append)
    next
      case 2
      with assms(2) c show ?thesis by (simp add: nth_append)
    qed
  }
  {
    assume "j < c"
    with assms(1) c show "\<bar>(pre @ [x]) ! c - goal\<bar> < \<bar>(pre @ [x]) ! j - goal\<bar>"
      by (simp add: closest_def nth_append)
  }
qed

lemma findClosestFrom_closest:
  assumes "i = length pre" and "closest pre goal c" and "m = \<bar>pre ! c - goal\<bar>"
  shows "closest (pre @ rest) goal (findClosestFrom rest goal i m c)"
  using assms
proof (induction rest arbitrary: pre i m c)
  case Nil
  then show ?case by simp
next
  case (Cons x rest)
  from Cons.prems(2) have c: "c < length pre" by (simp add: closest_def)
  show ?case
  proof (cases "\<bar>x - goal\<bar> < m")
    case True
    with Cons.prems have "closest (pre @ [x]) goal i"
      by (simp add: closest_snoc_new)
    from Cons.IH [OF _ this, of "Suc i" "\<bar>x - goal\<bar>"] Cons.prems(1) True
    show ?thesis by (simp add: Let_def)
  next
    case False
    with Cons.prems have "closest (pre @ [x]) goal c"
      by (simp add: closest_snoc_old)
    from Cons.IH [OF _ this, of "Suc i" m] Cons.prems c False
    show ?thesis by (simp add: Let_def nth_append)
  qed
qed

lemma findClosestIndex_closest:
  "xs \<noteq> [] \<Longrightarrow> closest xs goal (findClosestIndex xs goal)"
proof (cases xs)
  case Nil
  then show "xs \<noteq> [] \<Longrightarrow> ?thesis" by simp
next
  case (Cons a0 rest)
  have "closest [a0] goal 0" by (simp add: closest_def)
  from findClosestFrom_closest [of 1 "[a0]" goal 0 "\<bar>a0 - goal\<bar>" rest, OF _ this]
  show ?thesis by (simp add: findClosestIndex_def Cons)
qed

lemma findIndexFrom_first:
  assumes "\<exists>x \<in> set xs. P x"
  shows "\<exists>k<length xs. P (xs ! k) \<and> (\<forall>j<k. \<not> P (xs ! j)) \<and> findIndexFrom P xs i = int (i + k)"
  using assms
proof (induction xs arbitrary: i)
  case Nil
  then show ?case by simp
next
  case (Cons x xs)
  show ?case
  proof (cases "P x")
    case True
    then show ?thesis by (intro exI [of _ 0]) simp
  next
    case False
    with Cons.prems have "\<exists>x \<in> set xs. P x" by simp
    from Cons.IH [OF this, of "Suc i"] obtain k where
      k: "k < length xs" "P (xs ! k)" "\<forall>j<k. \<not> P (xs ! j)"
         "findIndexFrom P xs (Suc i) = int (Suc i + k)"
      by blast
    show ?thesis
      using k False by (intro exI [of _ "Suc k"]) (auto simp: less_Suc_eq_0_disj)
  qed
qed

lemma slice_nth:
  assumes "k < length (slice xs s e)"
  shows "slice xs s e ! k = xs ! (s + k)"
proof -
  from assms have "k < e - s" and "s \<le> length xs"
    by (auto simp: slice_def)
  then show ?thesis
    by (simp add: slice_def nth_drop)
qed

lemma slice_map_nth:
  assumes "e \<le> length xs"
  shows "slice xs s e = map ((!) xs) [s..<e]"
proof (rule nth_equalityI)
  show "length (slice xs s e) = length (map ((!) xs) [s..<e])"
    using assms by (simp add: slice_def)
next
  fix k assume "k < length (slice xs s e)"
  moreover from this have "k < e - s" by (simp add: slice_def)
  ultimately show "slice xs s e ! k = map ((!) xs) [s..<e] ! k"
    by (simp add: slice_nth)
qed

section \<open>Claims about the simulator\<close>

text \<open>
  C4: at \<open>noiseLevel = 0\<close> the noise is to have standard deviation 0, so that a
  non-target epoch is identically zero.  The code reads the parameter as
  \<open>params.noiseLevel || 0.5\<close>: a noise level of 0 is replaced by 0.5, and the epoch is
  the same as with \<open>noiseLevel = 0.5\<close>.  With the draws \<open>1/2, 1/2\<close> the one sample of
  a 4 ms non-target epoch is \<open>sqrt (-2 ln (1/2)) * cos \<pi> * 0.5\<close>, which is not zero.
\<close>

theorem generateEEGSignal_noiseLevel_zero:
  "generateEEGSignal (params\<lparr>noiseLevel := Some 0\<rparr>) rs
     = generateEEGSignal (params\<lparr>noiseLevel := Some 0.5\<rparr>) rs \<and>
   generateEEGSignal
     \<lparr>type = nontarget, samplingRate = Some 250, duration = Some 4, noiseLevel = Some 0\<rparr>
     [1 / 2, 1 / 2]
     = Some (\<lparr>timestamps = [0], rawSignal = [- (sqrt (2 * ln 2) / 2)]\<rparr>, []) \<and>
   - (sqrt (2 * ln 2) / 2) \<noteq> (0 :: real)"
  by (simp add: generateEEGSignal_def orElse_def generateGaussianNoise_def Let_def ln_div)

text \<open>
  C10: for every class and noise level, and for a positive sampling rate and a positive
  duration (each the argument, or the default 250 Hz and 1000 ms when the argument is
  absent), every epoch \<open>generateEEGSignal\<close> returns has
  \<open>floor (samplingRate * duration / 1000)\<close> timestamps and as many samples, the
  timestamp at index \<open>i\<close> is \<open>i * (1000 / samplingRate)\<close>, consecutive timestamps differ
  by \<open>1000 / samplingRate\<close>, and the timestamps are strictly increasing.  An epoch is
  returned whenever the supply of random draws holds two draws per sample and no zero.
\<close>

theorem generateEEGSignal_shape:
  assumes rate: "rate = (case samplingRate params of None \<Rightarrow> 250 | Some x \<Rightarrow> x)"
    and dur: "dur = (case duration params of None \<Rightarrow> 1000 | Some x \<Rightarrow> x)"
    and pos: "0 < rate" "0 < dur"
  shows
    "(\<forall>rs r rs'. generateEEGSignal params rs = Some (r, rs') \<longrightarrow>
        int (length (timestamps r)) = \<lfloor>rate * dur / 1000\<rfloor> \<and>
        length (EEGSignalResponse.rawSignal r) = length (timestamps r) \<and>
        (\<forall>i<length (timestamps r). timestamps r ! i = real i * (1000 / rate)) \<and>
        (\<forall>i. Suc i < length (timestamps r) \<longrightarrow>
           timestamps r ! Suc i - timestamps r ! i = 1000 / rate) \<and>
        (\<forall>i j. i < j \<and> j < length (timestamps r) \<longrightarrow> timestamps r ! i < timestamps r ! j)) \<and>
     (\<forall>rs. 0 \<notin> set rs \<and> 2 * nat \<lfloor>rate * dur / 1000\<rfloor> \<le> length rs \<longrightarrow>
        generateEEGSignal params rs \<noteq> None)"
proof -
  have r: "orElse (samplingRate params) 250 = rate" and d: "orElse (duration params) 1000 = dur"
    using rate dur pos by (auto simp: orElse_def split: option.splits)
  define n where "n = nat \<lfloor>rate * dur / 1000\<rfloor>"
  have nonneg: "0 \<le> \<lfloor>rate * dur / 1000\<rfloor>"
    using pos by simp
  have shape: "int (length (timestamps r)) = \<lfloor>rate * dur / 1000\<rfloor> \<and>
        length (EEGSignalResponse.rawSignal r) = length (timestamps r) \<and>
        (\<forall>i<length (timestamps r). timestamps r ! i = real i * (1000 / rate)) \<and>
        (\<forall>i. Suc i < length (timestamps r) \<longrightarrow>
           timestamps r ! Suc i - timestamps r ! i = 1000 / rate) \<and>
        (\<forall>i j. i < j \<and> j < length (timestamps r) \<longrightarrow> timestamps r ! i < timestamps r ! j)"
    if g: "generateEEGSignal params rs = Some (r, rs')" for rs r rs'
  proof -
    from g obtain samples where
      loop: "rawSignalLoop (type params) (orElse (noiseLevel params) 0.5)
               (map (\<lambda>i. (real i * 1000) / rate) [0..<n]) [0..<n] rs = Some (samples, rs')"
      and res: "r = \<lparr>timestamps = map (\<lambda>i. (real i * 1000) / rate) [0..<n], rawSignal = samples\<rparr>"
      by (auto simp: generateEEGSignal_def Let_def r d n_def split: option.splits)
    from rawSignalLoop_length [OF loop] have ls: "length samples = n" by simp
    have ts: "timestamps r = map (\<lambda>i. (real i * 1000) / rate) [0..<n]"
      by (simp add: res)
    have l: "int (length (timestamps r)) = \<lfloor>rate * dur / 1000\<rfloor>"
      using nonneg by (simp add: ts n_def)
    have nth: "timestamps r ! i = real i * (1000 / rate)" if "i < length (timestamps r)" for i
      using that by (simp add: ts)
    have step: "timestamps r ! Suc i - timestamps r ! i = 1000 / rate"
      if "Suc i < length (timestamps r)" for i
      using that nth [of i] nth [of "Suc i"] by (simp add: algebra_simps add_divide_distrib)
    have mono: "timestamps r ! i < timestamps r ! j" if "i < j \<and> j < length (timestamps r)" for i j
    proof -
      from that have "real i < real j" by simp
      moreover have "0 < 1000 / rate" using pos by simp
      ultimately have "real i * (1000 / rate) < real j * (1000 / rate)"
        by (rule mult_strict_right_mono)
      with that show ?thesis by (simp add: nth)
    qed
    from l ls nth step mono show ?thesis
      by (simp add: res)
  qed
  have returns: "generateEEGSignal params rs \<noteq> None"
    if "0 \<notin> set rs \<and> 2 * nat \<lfloor>rate * dur / 1000\<rfloor> \<le> length rs" for rs
  proof -
    from that have "rawSignalLoop (type params) (orElse (noiseLevel params) 0.5)
               (map (\<lambda>i. (real i * 1000) / rate) [0..<n]) [0..<n] rs \<noteq> None"
      by (intro rawSignalLoop_returns) (simp_all add: n_def)
    then show ?thesis
      by (auto simp: generateEEGSignal_def Let_def r d n_def split: option.splits)
  qed
  from shape returns show ?thesis by blast
qed

theorem generateEEGSignal_shape_witness:
  "(0 :: real) < 250 \<and> (0 :: real) < 12 \<and>
   (0 :: real) \<notin> set [1 / 2, 1 / 4, 1 / 2, 3 / 4, 1 / 8, 1 / 2] \<and>
   2 * nat \<lfloor>(250 :: real) * 12 / 1000\<rfloor> \<le> length [1 / 2, 1 / 4, 1 / 2, 3 / 4, 1 / 8, 1 / 2 :: real] \<and>
   generateEEGSignal
     \<lparr>type = target, samplingRate = Some 250, duration = Some 12, noiseLevel = Some 0.3\<rparr>
     [1 / 2, 1 / 4, 1 / 2, 3 / 4, 1 / 8, 1 / 2] \<noteq> None \<and>
   timestamps (fst (the (generateEEGSignal
     \<lparr>type = target, samplingRate = Some 250, duration = Some 12, noiseLevel = Some 0.3\<rparr>
     [1 / 2, 1 / 4, 1 / 2, 3 / 4, 1 / 8, 1 / 2]))) = [0, 4, 8]"
  using generateEEGSignal_shape
    [where rate = 250 and dur = 12
       and params = "\<lparr>type = target, samplingRate = Some 250, duration = Some 12,
                       noiseLevel = Some 0.3\<rparr>"]
  by (simp add: generateEEGSignal_def orElse_def generateGaussianNoise_def Let_def upt_rec)

section \<open>Claims about the preprocessing\<close>

text \<open>
  C9: for every non-empty input signal (and a sampling rate that is not negative)
  \<open>preprocessSignal\<close> returns a filtered signal of the same length as the input,
  together with the input itself, and the arithmetic mean of the filtered signal is 0 in
  exact arithmetic.
\<close>

theorem preprocessSignal_length_mean:
  assumes "raw \<noteq> []" and "0 \<le> samplingRateHz"
  shows "\<exists>r. preprocessSignal raw samplingRateHz = Some r \<and>
             PreprocessedSignalResponse.rawSignal r = raw \<and>
             length (filteredSignal r) = length raw \<and>
             sum_list (filteredSignal r) / real (length (filteredSignal r)) = 0"
proof -
  from applyNotchFilter_Some [OF assms(2)] obtain ys where
    ys: "applyNotchFilter (applyBandpassFilter raw 2) samplingRateHz = Some ys"
    and len: "length ys = length (applyBandpassFilter raw 2)"
    by blast
  from len assms(1) have ne: "ys \<noteq> []"
    by (auto simp: length_applyBandpassFilter)
  show ?thesis
    using len sum_list_centered [OF ne]
    by (simp add: preprocessSignal_def ys Let_def foldl_plus_sum_list length_applyBandpassFilter)
qed

theorem preprocessSignal_length_mean_witness:
  "[3, 1, 2 :: real] \<noteq> [] \<and> (0 :: real) \<le> 250 \<and>
   (\<exists>r. preprocessSignal [3, 1, 2] 250 = Some r \<and>
        PreprocessedSignalResponse.rawSignal r = [3, 1, 2] \<and>
        length (filteredSignal r) = length [3, 1, 2 :: real] \<and>
        sum_list (filteredSignal r) / real (length (filteredSignal r)) = 0)"
  using preprocessSignal_length_mean [where raw = "[3, 1, 2]" and samplingRateHz = 250]
  by simp

section \<open>Claims about the feature extraction\<close>

text \<open>
  C8: for non-empty timestamps, the window of \<open>extractFeatures\<close> runs from the index
  \<open>s\<close> of the timestamp nearest to 300 through the index \<open>e\<close> of the timestamp
  nearest to 600, each the first index of minimal absolute difference in a left-to-right
  scan.  When the window is not empty, the mean is the arithmetic mean of the window
  samples, the peak is the maximum of their absolute values, and the latency is the
  timestamp of the first window sample whose absolute value is equal to the peak.
\<close>

theorem extractFeatures_spec:
  fixes signal ts :: "real list"
  defines "s \<equiv> findClosestIndex ts 300"
    and "e \<equiv> findClosestIndex ts 600"
  defines "window \<equiv> take (e + 1 - s) (drop s signal)"
  assumes ne: "ts \<noteq> []"
  shows
    "s < length ts \<and>
     (\<forall>j<length ts. \<bar>ts ! s - 300\<bar> \<le> \<bar>ts ! j - 300\<bar>) \<and>
     (\<forall>j<s. \<bar>ts ! s - 300\<bar> < \<bar>ts ! j - 300\<bar>) \<and>
     e < length ts \<and>
     (\<forall>j<length ts. \<bar>ts ! e - 600\<bar> \<le> \<bar>ts ! j - 600\<bar>) \<and>
     (\<forall>j<e. \<bar>ts ! e - 600\<bar> < \<bar>ts ! j - 600\<bar>) \<and>
     (length ts \<le> length signal \<longrightarrow> window = map ((!) signal) [s..<e + 1]) \<and>
     (window \<noteq> [] \<longrightarrow>
        mean (extractFeatures signal ts) = sum_list window / real (length window) \<and>
        peak (extractFeatures signal ts) = Max (set (map abs window)) \<and>
        (\<exists>k<length window.
            \<bar>window ! k\<bar> = peak (extractFeatures signal ts) \<and>
            (\<forall>j<k. \<bar>window ! j\<bar> \<noteq> peak (extractFeatures signal ts)) \<and>
            latency (extractFeatures signal ts) = ts ! (s + k)))"
proof (intro conjI impI)
  from findClosestIndex_closest [OF ne, of 300] findClosestIndex_closest [OF ne, of 600]
  have cs: "closest ts 300 s" and ce: "closest ts 600 e"
    by (simp_all add: s_def e_def)
  from cs show "s < length ts" "\<forall>j<length ts. \<bar>ts ! s - 300\<bar> \<le> \<bar>ts ! j - 300\<bar>"
    "\<forall>j<s. \<bar>ts ! s - 300\<bar> < \<bar>ts ! j - 300\<bar>"
    by (simp_all add: closest_def)
  from ce show e: "e < length ts" and "\<forall>j<length ts. \<bar>ts ! e - 600\<bar> \<le> \<bar>ts ! j - 600\<bar>"
    "\<forall>j<e. \<bar>ts ! e - 600\<bar> < \<bar>ts ! j - 600\<bar>"
    by (simp_all add: closest_def)
  show "window = map ((!) signal) [s..<e + 1]" if "length ts \<le> length signal"
    using that e slice_map_nth [of "e + 1" signal s] by (simp add: window_def slice_def)
  assume wne: "window \<noteq> []"
  define wts where "wts = slice ts s (Suc e)"
  define p where "p = Max (abs ` set window)"
  have w: "slice signal s (Suc e) = window"
    by (simp add: window_def slice_def)
  from wne have "s \<le> e"
    by (cases "s \<le> e") (simp_all add: window_def)
  with e have "length wts = Suc e - s"
    by (simp add: wts_def slice_def)
  then have lw: "length window \<le> length wts"
    by (simp add: window_def)
  have "p \<in> abs ` set window"
    unfolding p_def using wne by (intro Max_in) simp_all
  then have "\<exists>x \<in> set window. \<bar>x\<bar> = p" by auto
  from findIndexFrom_first [OF this, of 0] obtain k where
    k: "k < length window" "\<bar>window ! k\<bar> = p" "\<forall>j<k. \<bar>window ! j\<bar> \<noteq> p"
       "findIndex (\<lambda>x. \<bar>x\<bar> = p) window = int k"
    by (auto simp: findIndex_def)
  have ef: "extractFeatures signal ts =
      \<lparr>mean = sum_list window / real (length window), peak = p,
       latency = orElse (elementAt wts (int k)) 0\<rparr>"
    using wne k(4)
    by (simp add: extractFeatures_def Let_def P300_START_MS_def P300_END_MS_def
        s_def [symmetric] e_def [symmetric] w wts_def [symmetric] p_def [symmetric]
        foldl_plus_sum_list)
  have "elementAt wts (int k) = Some (ts ! (s + k))"
    using k(1) lw slice_nth [of k ts s "Suc e"] by (simp add: elementAt_def wts_def)
  then have lat: "orElse (elementAt wts (int k)) 0 = ts ! (s + k)"
    by (simp add: orElse_def)
  show "mean (extractFeatures signal ts) = sum_list window / real (length window)"
    by (simp add: ef)
  show "peak (extractFeatures signal ts) = Max (set (map abs window))"
    by (simp add: ef p_def)
  show "\<exists>k<length window.
            \<bar>window ! k\<bar> = peak (extractFeatures signal ts) \<and>
            (\<forall>j<k. \<bar>window ! j\<bar> \<noteq> peak (extractFeatures signal ts)) \<and>
            latency (extractFeatures signal ts) = ts ! (s + k)"
    using k lat by (intro exI [of _ k]) (simp add: ef)
qed

theorem extractFeatures_spec_witness:
  "[0, 100, 250, 350, 400, 500, 600, 700 :: real] \<noteq> [] \<and>
   findClosestIndex [0, 100, 250, 350, 400, 500, 600, 700] 300 = 2 \<and>
   findClosestIndex [0, 100, 250, 350, 400, 500, 600, 700] 600 = 6 \<and>
   extractFeatures [1, - 2, 3, 4, - 7, - 6, 7, 8] [0, 100, 250, 350, 400, 500, 600, 700]
     = \<lparr>mean = 1 / 5, peak = 7, latency = 400\<rparr>"
  using extractFeatures_spec
    [where ts = "[0, 100, 250, 350, 400, 500, 600, 700]"
       and signal = "[1, - 2, 3, 4, - 7, - 6, 7, 8]"]
  by (simp add: extractFeatures_def findClosestIndex_def P300_START_MS_def P300_END_MS_def
      slice_def findIndex_def elementAt_def orElse_def Let_def)

end
